theory Spec2Isabelle
  imports Complex_Main "HOL-Library.Char_ord" "HOL-Library.List_Lexorder"
    "HOL-Library.Product_Lexorder"
begin

section \<open>Python values used by the opportunity-matching engine\<close>

text \<open>
  Strings are byte lists. \<open>str.lower\<close> and \<open>str.strip\<close> are modelled on ASCII: the
  letters \<open>A\<close>..\<open>Z\<close> are mapped to \<open>a\<close>..\<open>z\<close>, every other character is left as it
  is, and the white space removed by \<open>strip\<close> is the ASCII white space of
  \<open>str.isspace\<close> (codes 9 to 13 and 28 to 32). Python floats are read as the rational
  numbers they approximate, so \<open>0.4\<close> is \<open>2/5\<close>.
\<close>

definition lower_char :: "char \<Rightarrow> char" where
  "lower_char c =
     (let n = (of_char c :: nat) in if 65 \<le> n \<and> n \<le> 90 then char_of (n + 32) else c)"

definition lower :: "string \<Rightarrow> string" where
  "lower s = map lower_char s"

definition is_space :: "char \<Rightarrow> bool" where
  "is_space c = (let n = (of_char c :: nat) in (9 \<le> n \<and> n \<le> 13) \<or> (28 \<le> n \<and> n \<le> 32))"

definition strip :: "string \<Rightarrow> string" where
  "strip s = rev (dropWhile is_space (rev (dropWhile is_space s)))"

text \<open>\<open>starts_with p s\<close> is \<open>s.startswith(p)\<close>; \<open>contains sub s\<close> is Python's \<open>sub in s\<close>
  on strings (the empty string is in every string).\<close>

fun starts_with :: "string \<Rightarrow> string \<Rightarrow> bool" where
  "starts_with [] s = True"
| "starts_with (p # ps) [] = False"
| "starts_with (p # ps) (c # cs) = (p = c \<and> starts_with ps cs)"

fun contains :: "string \<Rightarrow> string \<Rightarrow> bool" where
  "contains sub [] = (sub = [])"
| "contains sub (c # cs) = (starts_with sub (c # cs) \<or> contains sub cs)"

text \<open>\<open>sep.join(xs)\<close>.\<close>

fun join :: "string \<Rightarrow> string list \<Rightarrow> string" where
  "join sep [] = []"
| "join sep [x] = x"
| "join sep (x # y # ys) = x @ sep @ join sep (y # ys)"

text \<open>\<open>int(x)\<close> on a float truncates towards zero.\<close>

definition py_int :: "rat \<Rightarrow> int" where
  "py_int x = (if 0 \<le> x then \<lfloor>x\<rfloor> else \<lceil>x\<rceil>)"




definition last_n :: "nat \<Rightarrow> 'a list \<Rightarrow> 'a list" where
  "last_n n xs = drop (length xs - n) xs"

text \<open>\<open>xs.sort(key=f)\<close> is the stable \<open>sort_key f\<close>. \<open>xs.sort(key=f, reverse=True)\<close>
  keeps elements with equal keys in their original order: it sorts the reversed list
  and reverses the result.\<close>

definition sort_reverse :: "('a \<Rightarrow> 'k::linorder) \<Rightarrow> 'a list \<Rightarrow> 'a list" where
  "sort_reverse f xs = rev (sort_key f (rev xs))"

section \<open>Data model\<close>

text \<open>
  Profiles, opportunities and activity records are dictionaries in the source. Every
  read of a profile field is \<open>get(key, default)\<close> with the empty list or the empty
  string as default, so an absent key is the empty value of the field. An opportunity's
  \<open>id\<close> and \<open>status\<close> are read with \<open>get(key)\<close>, where an absent key is \<open>None\<close>.
\<close>

record user_profile =
  p_username :: string
  p_skills :: "string list"
  p_interests :: "string list"
  p_tags :: "string list"
  p_bio :: string
  p_metadata :: "(string \<times> string) list"
  p_updated_at :: string

record activity =
  a_username :: string
  a_community :: string
  a_type :: string
  a_content :: string
  a_timestamp :: string

record opportunity =
  o_id :: "string option"
  o_title :: string
  o_description :: string
  o_category :: string
  o_tags :: "string list"
  o_requirements :: "string list"
  o_deadline :: "string option"
  o_posted_by :: "string option"
  o_metadata :: "(string \<times> string) list"
  o_created_at :: string
  o_status :: "string option"

text \<open>An entry of \<open>OPPORTUNITY_DATABASE\<close> in \<open>personalized_opportunities.py\<close>.\<close>

record template =
  t_title :: string
  t_type :: string
  t_category :: string
  t_skills :: "string list"
  t_interests :: "string list"
  t_tags :: "string list"
  t_description :: string
  t_company :: string
  t_urgency_days :: int

section \<open>The tag-weighted scorer of \<open>personalized_opportunities.py\<close>\<close>

text \<open>
  \<open>calculate_match_score(user_profile, opportunity)\<close> threads the pair
  \<open>(score, max_score)\<close> through four components. Each is a function from the pair
  before it to the pair after it.
\<close>

definition user_tags :: "user_profile \<Rightarrow> string list" where
  "user_tags p = map (\<lambda>t. strip (lower t)) (p_tags p)"

definition user_skills :: "user_profile \<Rightarrow> string list" where
  "user_skills p = map (\<lambda>s. strip (lower s)) (p_skills p)"

definition user_interests :: "user_profile \<Rightarrow> string list" where
  "user_interests p = map (\<lambda>i. strip (lower i)) (p_interests p)"

definition tag_matches :: "user_profile \<Rightarrow> template \<Rightarrow> nat" where
  "tag_matches p opp =
     length (filter (\<lambda>tag. tag \<in> set (map lower (t_tags opp))) (user_tags p))"

definition tag_contribution :: "user_profile \<Rightarrow> template \<Rightarrow> rat" where
  "tag_contribution p opp =
     of_nat (tag_matches p opp) / of_nat (length (map lower (t_tags opp))) * 50"

definition tag_component :: "user_profile \<Rightarrow> template \<Rightarrow> rat \<times> int \<Rightarrow> rat \<times> int" where
  "tag_component p opp = (\<lambda>(score, max_score).
     if t_tags opp \<noteq> [] \<and> user_tags p \<noteq> []
     then (score + tag_contribution p opp, max_score + 50)
     else (score, max_score))"

text \<open>A user entry counts when it contains, or is contained in, some entry of the
  opportunity.\<close>

definition loose_matches :: "string list \<Rightarrow> string list \<Rightarrow> nat" where
  "loose_matches user_items opp_items =
     length (filter (\<lambda>u. list_ex (\<lambda>v. contains v u \<or> contains u v) opp_items) user_items)"

definition skills_component :: "user_profile \<Rightarrow> template \<Rightarrow> rat \<times> int \<Rightarrow> rat \<times> int" where
  "skills_component p opp = (\<lambda>(score, max_score).
     if t_skills opp \<noteq> [] then
       (let opp_skills = map lower (t_skills opp);
            skill_matches = loose_matches (user_skills p) opp_skills
        in (if user_skills p \<noteq> []
            then score + of_nat skill_matches / of_nat (length opp_skills) * 25
            else score,
            max_score + 25))
     else (score, max_score))"

definition interests_component :: "user_profile \<Rightarrow> template \<Rightarrow> rat \<times> int \<Rightarrow> rat \<times> int" where
  "interests_component p opp = (\<lambda>(score, max_score).
     if t_interests opp \<noteq> [] then
       (let opp_interests = map lower (t_interests opp);
            interest_matches = loose_matches (user_interests p) opp_interests
        in (if user_interests p \<noteq> []
            then score + of_nat interest_matches / of_nat (length opp_interests) * 15
            else score,
            max_score + 15))
     else (score, max_score))"

definition bio_matches :: "user_profile \<Rightarrow> template \<Rightarrow> nat" where
  "bio_matches p opp = length (filter (\<lambda>tag. contains tag (lower (p_bio p))) (t_tags opp))"

definition bio_component :: "user_profile \<Rightarrow> template \<Rightarrow> rat \<times> int \<Rightarrow> rat \<times> int" where
  "bio_component p opp = (\<lambda>(score, max_score).
     if lower (p_bio p) \<noteq> [] \<and> t_tags opp \<noteq> []
     then (score + of_nat (bio_matches p opp) / of_nat (length (t_tags opp)) * 10,
           max_score + 10)
     else (score, max_score))"

text \<open>The pair \<open>(score, max_score)\<close> when the normalisation starts.\<close>

definition score_and_max :: "user_profile \<Rightarrow> template \<Rightarrow> rat \<times> int" where
  "score_and_max p opp =
     bio_component p opp (interests_component p opp
       (skills_component p opp (tag_component p opp (0, 0))))"

definition pre_jitter_score :: "user_profile \<Rightarrow> template \<Rightarrow> int" where
  "pre_jitter_score p opp =
     (case score_and_max p opp of (score, max_score) \<Rightarrow>
        if 0 < max_score then py_int (score / of_int max_score * 100) else 0)"

text \<open>The last argument is the value drawn by \<open>random.randint(-3, 3)\<close>.\<close>

definition tag_weighted_match_score :: "user_profile \<Rightarrow> template \<Rightarrow> int \<Rightarrow> int" where
  "tag_weighted_match_score p opp jitter = max 0 (min 100 (pre_jitter_score p opp + jitter))"









section \<open>The dynamic catalog of \<open>opportunity_matcher.py\<close>\<close>

subsection \<open>The document store\<close>

text \<open>
  The Firebase client is outside the repository. The store holds, under
  \<open>opportunities/<community>\<close> and \<open>user_activity/<username>\<close>, collections of records
  keyed by storage keys, and under \<open>user_profiles/<username>\<close> one profile. A community
  or user name is one path segment. A collection is the list of its \<open>(key, record)\<close>
  entries; \<open>order_by_key\<close> sorts it by key. Every call of the client raises when the
  store is not \<open>online\<close>, and the functions of the module catch that.
\<close>

record store =
  db_opportunities :: "string \<Rightarrow> (string \<times> opportunity) list"
  db_user_profiles :: "string \<Rightarrow> user_profile option"
  db_user_activity :: "string \<Rightarrow> (string \<times> activity) list"
  db_online :: bool

datatype db_error = Unavailable | Invalid_limit

text \<open>\<open>ref.get()\<close>, \<open>ref.order_by_key().limit_to_last(limit).get()\<close>,
  \<open>ref.push(record)\<close> with the key the store generates, \<open>ref.child(key).update({"status":
  status})\<close> and \<open>ref.set(profile)\<close>.\<close>

definition ref_get :: "store \<Rightarrow> string \<Rightarrow> db_error + (string \<times> opportunity) list" where
  "ref_get db community = (if db_online db then Inr (db_opportunities db community) else Inl Unavailable)"

definition limit_to_last :: "int \<Rightarrow> (string \<times> 'a) list \<Rightarrow> db_error + (string \<times> 'a) list" where
  "limit_to_last limit coll =
     (if limit < 0 then Inl Invalid_limit else Inr (last_n (nat limit) (sort_key fst coll)))"

definition query_opportunities ::
  "store \<Rightarrow> string \<Rightarrow> int \<Rightarrow> db_error + (string \<times> opportunity) list" where
  "query_opportunities db community limit =
     (if db_online db then limit_to_last limit (db_opportunities db community) else Inl Unavailable)"


definition ref_push :: "store \<Rightarrow> string \<Rightarrow> string \<Rightarrow> opportunity \<Rightarrow> db_error + store" where
  "ref_push db community key opp =
     (if db_online db
      then Inr (db\<lparr>db_opportunities :=
                    (db_opportunities db)(community := db_opportunities db community @ [(key, opp)])\<rparr>)
      else Inl Unavailable)"

definition set_status :: "string \<Rightarrow> string \<Rightarrow> string \<times> opportunity \<Rightarrow> string \<times> opportunity" where
  "set_status key status = (\<lambda>(k, opp). if k = key then (k, opp\<lparr>o_status := Some status\<rparr>) else (k, opp))"

definition child_update :: "store \<Rightarrow> string \<Rightarrow> string \<Rightarrow> string \<Rightarrow> db_error + store" where
  "child_update db community key status =
     (if db_online db
      then Inr (db\<lparr>db_opportunities :=
                    (db_opportunities db)(community := map (set_status key status) (db_opportunities db community))\<rparr>)
      else Inl Unavailable)"

definition ref_set :: "store \<Rightarrow> string \<Rightarrow> user_profile \<Rightarrow> db_error + store" where
  "ref_set db username profile =
     (if db_online db
      then Inr (db\<lparr>db_user_profiles := (db_user_profiles db)(username := Some profile)\<rparr>)
      else Inl Unavailable)"

subsection \<open>Opportunity storage and retrieval\<close>

text \<open>The last three arguments of \<open>add_opportunity\<close> are the values of
  \<open>str(uuid.uuid4())\<close> and \<open>datetime.now().isoformat()\<close> and the key that \<open>push\<close>
  generates.\<close>

definition add_opportunity ::
  "store \<Rightarrow> string \<Rightarrow> string \<Rightarrow> string \<Rightarrow> string \<Rightarrow> string list option \<Rightarrow> string list option \<Rightarrow>
   string option \<Rightarrow> string option \<Rightarrow> (string \<times> string) list option \<Rightarrow>
   string \<Rightarrow> string \<Rightarrow> string \<Rightarrow> string option \<times> store" where
  "add_opportunity db community title description category tags requirements deadline posted_by
     metadata uuid4 now push_key =
     (let opportunity =
        \<lparr>o_id = Some uuid4, o_title = title, o_description = description, o_category = category,
         o_tags = (case tags of None \<Rightarrow> [] | Some ts \<Rightarrow> ts),
         o_requirements = (case requirements of None \<Rightarrow> [] | Some rs \<Rightarrow> rs),
         o_deadline = deadline, o_posted_by = posted_by,
         o_metadata = (case metadata of None \<Rightarrow> [] | Some md \<Rightarrow> md),
         o_created_at = now, o_status = Some ''active''\<rparr>
      in case ref_push db community push_key opportunity of
           Inr db' \<Rightarrow> (o_id opportunity, db')
         | Inl e \<Rightarrow> (None, db))"

definition get_opportunities :: "store \<Rightarrow> string \<Rightarrow> string \<Rightarrow> int \<Rightarrow> opportunity list" where
  "get_opportunities db community status limit =
     (case query_opportunities db community limit of
        Inr data \<Rightarrow>
          if data = [] then []
          else (let opportunities = map snd data;
                    opportunities = (if status \<noteq> ''all''
                                     then filter (\<lambda>opp. o_status opp = Some status) opportunities
                                     else opportunities)
                in sort_reverse o_created_at opportunities)
      | Inl e \<Rightarrow> [])"

definition update_opportunity_status :: "store \<Rightarrow> string \<Rightarrow> string \<Rightarrow> string \<Rightarrow> bool \<times> store" where
  "update_opportunity_status db community opportunity_id status =
     (case ref_get db community of
        Inr data \<Rightarrow>
          if data = [] then (False, db)
          else (case find (\<lambda>(key, opp). o_id opp = Some opportunity_id) data of
                  Some (key, opp) \<Rightarrow>
                    (case child_update db community key status of
                       Inr db' \<Rightarrow> (True, db')
                     | Inl e \<Rightarrow> (False, db))
                | None \<Rightarrow> (False, db))
      | Inl e \<Rightarrow> (False, db))"

subsection \<open>User profiles\<close>

text \<open>The last argument of \<open>update_user_profile\<close> is the value of
  \<open>datetime.now().isoformat()\<close>.\<close>

definition update_user_profile ::
  "store \<Rightarrow> string \<Rightarrow> string list option \<Rightarrow> string list option \<Rightarrow> string option \<Rightarrow>
   string list option \<Rightarrow> (string \<times> string) list option \<Rightarrow> string \<Rightarrow> bool \<times> store" where
  "update_user_profile db username skills interests bio tags metadata now =
     (let profile =
        \<lparr>p_username = username,
         p_skills = (case skills of None \<Rightarrow> [] | Some ss \<Rightarrow> ss),
         p_interests = (case interests of None \<Rightarrow> [] | Some is \<Rightarrow> is),
         p_tags = (case tags of None \<Rightarrow> [] | Some ts \<Rightarrow> ts),
         p_bio = (case bio of None \<Rightarrow> [] | Some b \<Rightarrow> b),
         p_metadata = (case metadata of None \<Rightarrow> [] | Some md \<Rightarrow> md),
         p_updated_at = now\<rparr>
      in case ref_set db username profile of
           Inr db' \<Rightarrow> (True, db')
         | Inl e \<Rightarrow> (False, db))"


subsection \<open>Matching algorithm\<close>

text \<open>
  \<open>SequenceMatcher(None, a, b).ratio()\<close> comes from the standard library; it is the
  argument \<open>ratio\<close>. The four weighted parts are added to \<open>score\<close> in the order of the
  source; a part whose guard fails adds nothing.
\<close>

definition lower_set :: "string list \<Rightarrow> string set" where
  "lower_set xs = set (map lower xs)"

definition skills_score :: "opportunity \<Rightarrow> user_profile \<Rightarrow> rat" where
  "skills_score opportunity user_profile =
     (let opp_requirements = lower_set (o_requirements opportunity);
          skills_overlap = card (lower_set (p_skills user_profile) \<inter> opp_requirements)
      in of_nat skills_overlap / of_nat (card opp_requirements))"

definition skills_part :: "opportunity \<Rightarrow> user_profile \<Rightarrow> rat" where
  "skills_part opportunity user_profile =
     (if lower_set (o_requirements opportunity) \<noteq> {}
      then skills_score opportunity user_profile * (4 / 10) else 0)"

definition interest_score :: "opportunity \<Rightarrow> user_profile \<Rightarrow> rat" where
  "interest_score opportunity user_profile =
     (let opp_tags = lower_set (o_tags opportunity);
          interest_overlap = card (lower_set (p_interests user_profile) \<inter> opp_tags)
      in if opp_tags \<noteq> {} then of_nat interest_overlap / of_nat (card opp_tags) else 0)"

definition interest_part :: "opportunity \<Rightarrow> user_profile \<Rightarrow> rat" where
  "interest_part opportunity user_profile =
     (if lower_set (o_tags opportunity) \<noteq> {}
      then interest_score opportunity user_profile * (3 / 10) else 0)"

definition activity_part :: "(string \<Rightarrow> string \<Rightarrow> rat) \<Rightarrow> opportunity \<Rightarrow> activity list \<Rightarrow> rat" where
  "activity_part ratio opportunity user_activity =
     (if user_activity \<noteq> []
      then (let activity_texts = lower (join '' '' (map a_content (last_n 20 user_activity)))
            in ratio activity_texts (lower (o_description opportunity)) * (2 / 10))
      else 0)"

definition bio_part :: "(string \<Rightarrow> string \<Rightarrow> rat) \<Rightarrow> opportunity \<Rightarrow> user_profile \<Rightarrow> rat" where
  "bio_part ratio opportunity user_profile =
     (let user_bio = lower (p_bio user_profile)
      in if user_bio \<noteq> [] then ratio user_bio (lower (o_description opportunity)) * (1 / 10)
         else 0)"

definition calculate_match_score ::
  "(string \<Rightarrow> string \<Rightarrow> rat) \<Rightarrow> opportunity \<Rightarrow> user_profile \<Rightarrow> activity list \<Rightarrow> rat" where
  "calculate_match_score ratio opportunity user_profile user_activity =
     (let score = 0;
          score = score + skills_part opportunity user_profile;
          score = score + interest_part opportunity user_profile;
          score = score + activity_part ratio opportunity user_activity;
          score = score + bio_part ratio opportunity user_profile
      in min score 1)"


text \<open>The profile used when none is stored: \<open>{"skills": [], "interests": [], "bio": ""}\<close>.\<close>

definition empty_profile :: user_profile where
  "empty_profile =
     \<lparr>p_username = [], p_skills = [], p_interests = [], p_tags = [], p_bio = [],
      p_metadata = [], p_updated_at = []\<rparr>"



section \<open>The static catalog\<close>


section \<open>Quantities named by the specification, and inputs of its scenarios\<close>



text \<open>A profile extended by one skill.\<close>

definition add_skill :: "user_profile \<Rightarrow> string \<Rightarrow> user_profile" where
  "add_skill user_profile skill = user_profile\<lparr>p_skills := p_skills user_profile @ [skill]\<rparr>"

definition blank_opportunity :: opportunity where
  "blank_opportunity =
     \<lparr>o_id = None, o_title = [], o_description = [], o_category = [], o_tags = [],
      o_requirements = [], o_deadline = None, o_posted_by = None, o_metadata = [],
      o_created_at = [], o_status = None\<rparr>"

definition blank_template :: template where
  "blank_template =
     \<lparr>t_title = [], t_type = [], t_category = [], t_skills = [], t_interests = [],
      t_tags = [], t_description = [], t_company = [], t_urgency_days = 0\<rparr>"

text \<open>Scenario 1: skills \<open>["python"]\<close> against requirements \<open>["python", "sql"]\<close>.\<close>

definition scenario1_profile :: user_profile where
  "scenario1_profile = empty_profile\<lparr>p_skills := [''python'']\<rparr>"

definition scenario1_opportunity :: opportunity where
  "scenario1_opportunity = blank_opportunity\<lparr>o_requirements := [''python'', ''sql'']\<rparr>"

text \<open>Scenario 2: tags \<open>["ai", "python"]\<close> against tags \<open>["ai", "ml", "python"]\<close>.\<close>

definition scenario2_profile :: user_profile where
  "scenario2_profile = empty_profile\<lparr>p_tags := [''ai'', ''python'']\<rparr>"

definition scenario2_template :: template where
  "scenario2_template = blank_template\<lparr>t_tags := [''ai'', ''ml'', ''python'']\<rparr>"

text \<open>A profile that lists one tag three times, and a template with that one tag.\<close>

definition repeated_tags_profile :: user_profile where
  "repeated_tags_profile = empty_profile\<lparr>p_tags := [''ai'', ''ai'', ''ai'']\<rparr>"

definition one_tag_template :: template where
  "one_tag_template = blank_template\<lparr>t_tags := [''ai'']\<rparr>"




text \<open>Two opportunity records that agree on every field but \<open>status\<close>; an entry of a
  collection whose record has a given \<open>id\<close>.\<close>

definition same_but_status :: "opportunity \<Rightarrow> opportunity \<Rightarrow> bool" where
  "same_but_status a b =
     (o_id a = o_id b \<and> o_title a = o_title b \<and> o_description a = o_description b \<and>
      o_category a = o_category b \<and> o_tags a = o_tags b \<and>
      o_requirements a = o_requirements b \<and> o_deadline a = o_deadline b \<and>
      o_posted_by a = o_posted_by b \<and> o_metadata a = o_metadata b \<and>
      o_created_at a = o_created_at b)"

definition has_id :: "string \<Rightarrow> string \<times> opportunity \<Rightarrow> bool" where
  "has_id opportunity_id entry = (o_id (snd entry) = Some opportunity_id)"

text \<open>A store that holds nothing, and one that holds one active opportunity under the
  community \<open>dev\<close>.\<close>

definition empty_store :: store where
  "empty_store =
     \<lparr>db_opportunities = (\<lambda>community. []), db_user_profiles = (\<lambda>username. None),
      db_user_activity = (\<lambda>username. []), db_online = True\<rparr>"

definition sample_opportunity :: opportunity where
  "sample_opportunity =
     blank_opportunity\<lparr>o_id := Some ''id-1'', o_title := ''Data meetup'',
       o_created_at := ''2024-05-01T10:00:00'', o_status := Some ''active''\<rparr>"

definition sample_store :: store where
  "sample_store = empty_store\<lparr>db_opportunities := (\<lambda>community. [])(''dev'' := [(''k1'', sample_opportunity)])\<rparr>"

text \<open>The caller's arguments of \<open>add_opportunity\<close> as one value, the record that
  \<open>add_opportunity\<close> builds from them, and scenario 3: three opportunities are created in
  a community and the one with the id \<open>closed_id\<close> is closed.\<close>

record submission =
  sub_title :: string
  sub_description :: string
  sub_category :: string
  sub_tags :: "string list option"
  sub_requirements :: "string list option"
  sub_deadline :: "string option"
  sub_posted_by :: "string option"
  sub_metadata :: "(string \<times> string) list option"

definition submit ::
  "store \<Rightarrow> string \<Rightarrow> submission \<Rightarrow> string \<Rightarrow> string \<Rightarrow> string \<Rightarrow> string option \<times> store" where
  "submit db community sub uuid4 now push_key =
     add_opportunity db community (sub_title sub) (sub_description sub) (sub_category sub)
       (sub_tags sub) (sub_requirements sub) (sub_deadline sub) (sub_posted_by sub)
       (sub_metadata sub) uuid4 now push_key"

definition create_three_close_one ::
  "store \<Rightarrow> string \<Rightarrow> submission \<Rightarrow> string \<Rightarrow> string \<Rightarrow> string \<Rightarrow>
   submission \<Rightarrow> string \<Rightarrow> string \<Rightarrow> string \<Rightarrow> submission \<Rightarrow> string \<Rightarrow> string \<Rightarrow> string \<Rightarrow>
   string \<Rightarrow> bool \<times> store" where
  "create_three_close_one db community sub1 uuid1 now1 key1 sub2 uuid2 now2 key2
     sub3 uuid3 now3 key3 closed_id =
     (let db1 = snd (submit db community sub1 uuid1 now1 key1);
          db2 = snd (submit db1 community sub2 uuid2 now2 key2);
          db3 = snd (submit db2 community sub3 uuid3 now3 key3)
      in update_opportunity_status db3 community closed_id ''closed'')"

definition submitted :: "submission \<Rightarrow> string \<Rightarrow> string \<Rightarrow> opportunity" where
  "submitted sub uuid4 now =
     \<lparr>o_id = Some uuid4, o_title = sub_title sub, o_description = sub_description sub,
      o_category = sub_category sub,
      o_tags = (case sub_tags sub of None \<Rightarrow> [] | Some ts \<Rightarrow> ts),
      o_requirements = (case sub_requirements sub of None \<Rightarrow> [] | Some rs \<Rightarrow> rs),
      o_deadline = sub_deadline sub, o_posted_by = sub_posted_by sub,
      o_metadata = (case sub_metadata sub of None \<Rightarrow> [] | Some md \<Rightarrow> md),
      o_created_at = now, o_status = Some ''active''\<rparr>"

definition sample_submission :: submission where
  "sample_submission =
     \<lparr>sub_title = ''Data meetup'', sub_description = ''Monthly meetup'', sub_category = ''event'',
      sub_tags = Some [''data''], sub_requirements = None, sub_deadline = None,
      sub_posted_by = Some ''ann'', sub_metadata = None\<rparr>"

section \<open>The tag-weighted scorer: sign, truncation and range\<close>

lemma tag_component_nonneg:
  "0 \<le> fst sm \<Longrightarrow> 0 \<le> snd sm \<Longrightarrow> 0 \<le> fst (tag_component p opp sm) \<and> 0 \<le> snd (tag_component p opp sm)"
  by (cases sm) (simp add: tag_component_def tag_contribution_def)

lemma skills_component_nonneg:
  "0 \<le> fst sm \<Longrightarrow> 0 \<le> snd sm \<Longrightarrow> 0 \<le> fst (skills_component p opp sm) \<and> 0 \<le> snd (skills_component p opp sm)"
  by (cases sm) (simp add: skills_component_def Let_def)

lemma interests_component_nonneg:
  "0 \<le> fst sm \<Longrightarrow> 0 \<le> snd sm \<Longrightarrow> 0 \<le> fst (interests_component p opp sm) \<and> 0 \<le> snd (interests_component p opp sm)"
  by (cases sm) (simp add: interests_component_def Let_def)

lemma bio_component_nonneg:
  "0 \<le> fst sm \<Longrightarrow> 0 \<le> snd sm \<Longrightarrow> 0 \<le> fst (bio_component p opp sm) \<and> 0 \<le> snd (bio_component p opp sm)"
  by (cases sm) (simp add: bio_component_def)

lemma score_and_max_nonneg:
  "0 \<le> fst (score_and_max p opp) \<and> 0 \<le> snd (score_and_max p opp)"
proof -
  let ?a = "tag_component p opp (0, 0)"
  let ?b = "skills_component p opp ?a"
  let ?c = "interests_component p opp ?b"
  have a: "0 \<le> fst ?a \<and> 0 \<le> snd ?a"
    by (rule tag_component_nonneg) simp_all
  have b: "0 \<le> fst ?b \<and> 0 \<le> snd ?b"
    using a by (intro skills_component_nonneg) simp_all
  have c: "0 \<le> fst ?c \<and> 0 \<le> snd ?c"
    using b by (intro interests_component_nonneg) simp_all
  show ?thesis
    unfolding score_and_max_def using c by (intro bio_component_nonneg) simp_all
qed

lemma pre_jitter_score_floor:
  "pre_jitter_score p opp =
     (if 0 < snd (score_and_max p opp)
      then \<lfloor>fst (score_and_max p opp) / of_int (snd (score_and_max p opp)) * 100\<rfloor> else 0)"
proof (cases "score_and_max p opp")
  case (Pair score max_score)
  have "0 \<le> score" "0 \<le> max_score"
    using score_and_max_nonneg [of p opp] Pair by simp_all
  then have "0 \<le> score / of_int max_score * 100"
    by simp
  then show ?thesis
    using Pair by (simp add: pre_jitter_score_def py_int_def)
qed

lemma pre_jitter_score_nonneg: "0 \<le> pre_jitter_score p opp"
proof -
  have "0 \<le> fst (score_and_max p opp) / of_int (snd (score_and_max p opp)) * 100"
    using score_and_max_nonneg [of p opp] by simp
  then show ?thesis
    unfolding pre_jitter_score_floor by simp
qed

lemma tag_matches_le:
  assumes "distinct (user_tags p)"
  shows "tag_matches p opp \<le> length (t_tags opp)"
proof -
  have "tag_matches p opp = card ({x. x \<in> set (map lower (t_tags opp))} \<inter> set (user_tags p))"
    unfolding tag_matches_def using assms by (rule distinct_length_filter)
  also have "\<dots> \<le> card (set (map lower (t_tags opp)))"
    by (intro card_mono) auto
  also have "\<dots> \<le> length (map lower (t_tags opp))"
    by (rule card_length)
  finally show ?thesis by simp
qed

lemma fraction_of_weight:
  assumes "m \<le> n" "0 \<le> w"
  shows "0 \<le> of_nat m / (of_nat n :: rat) * w \<and> of_nat m / (of_nat n :: rat) * w \<le> w"
proof -
  have "of_nat m / (of_nat n :: rat) \<le> 1"
    using assms(1) by (cases "n = 0") (simp_all add: divide_le_eq_1)
  then have "of_nat m / (of_nat n :: rat) * w \<le> 1 * w"
    using assms(2) by (rule mult_right_mono)
  moreover have "0 \<le> of_nat m / (of_nat n :: rat) * w"
    using assms(2) by simp
  ultimately show ?thesis by simp
qed

lemma tag_contribution_bounds:
  assumes "distinct (user_tags p)"
  shows "0 \<le> tag_contribution p opp \<and> tag_contribution p opp \<le> 50"
  unfolding tag_contribution_def length_map
  by (rule fraction_of_weight [OF tag_matches_le [OF assms]]) simp


lemma scenario2_tags_distinct: "distinct (user_tags scenario2_profile)"
  by code_simp




section \<open>The dynamic-catalog scorer: range, skills coverage and monotonicity\<close>

lemma skills_part_nonneg: "0 \<le> skills_part opp p"
  by (simp add: skills_part_def skills_score_def Let_def)

lemma interest_part_nonneg: "0 \<le> interest_part opp p"
  by (simp add: interest_part_def interest_score_def Let_def)

lemma activity_part_nonneg: "(\<And>a b. 0 \<le> ratio a b) \<Longrightarrow> 0 \<le> activity_part ratio opp acts"
  by (simp add: activity_part_def Let_def)

lemma bio_part_nonneg: "(\<And>a b. 0 \<le> ratio a b) \<Longrightarrow> 0 \<le> bio_part ratio opp p"
  by (simp add: bio_part_def Let_def)

lemma calculate_match_score_sum:
  "calculate_match_score ratio opp p acts =
     min (skills_part opp p + interest_part opp p + activity_part ratio opp acts
          + bio_part ratio opp p) 1"
  by (simp add: calculate_match_score_def Let_def)

lemma calculate_match_score_range:
  assumes "\<And>a b. 0 \<le> ratio a b"
  shows "0 \<le> calculate_match_score ratio opp p acts \<and> calculate_match_score ratio opp p acts \<le> 1"
proof -
  have "0 \<le> skills_part opp p + interest_part opp p + activity_part ratio opp acts
          + bio_part ratio opp p"
    using skills_part_nonneg [of opp p] interest_part_nonneg [of opp p]
      activity_part_nonneg [of ratio opp acts, OF assms] bio_part_nonneg [of ratio opp p, OF assms]
    by linarith
  then show ?thesis
    unfolding calculate_match_score_sum by simp
qed









lemma skills_score_add_skill: "skills_score opp p \<le> skills_score opp (add_skill p s)"
proof -
  let ?R = "lower_set (o_requirements opp)"
  have "card (lower_set (p_skills p) \<inter> ?R) \<le> card (lower_set (p_skills (add_skill p s)) \<inter> ?R)"
    by (rule card_mono) (auto simp: lower_set_def add_skill_def)
  then show ?thesis
    by (simp add: skills_score_def Let_def divide_right_mono)
qed

lemma skills_part_add_skill: "skills_part opp p \<le> skills_part opp (add_skill p s)"
  using skills_score_add_skill [of opp p s] by (simp add: skills_part_def)

lemma other_parts_add_skill:
  "interest_part opp (add_skill p s) = interest_part opp p"
  "bio_part ratio opp (add_skill p s) = bio_part ratio opp p"
  by (simp_all add: interest_part_def interest_score_def bio_part_def add_skill_def)

lemma calculate_match_score_add_skill:
  "calculate_match_score ratio opp p acts \<le> calculate_match_score ratio opp (add_skill p s) acts"
  unfolding calculate_match_score_sum other_parts_add_skill
  using skills_part_add_skill [of opp p s] by (intro min.mono) simp_all

text \<open>
  C1, as stated, fails: the tag component counts every entry of the user's tag list that
  is among the opportunity's tags, so a tag listed three times counts three times. With
  tags \<open>["ai", "ai", "ai"]\<close> against the single tag \<open>["ai"]\<close> the tag contribution is 150
  and the value before the jitter is 300.
\<close>

theorem repeated_tags_exceed_weight:
  "tag_contribution repeated_tags_profile one_tag_template = 150 \<and>
   \<not> tag_contribution repeated_tags_profile one_tag_template \<le> 50 \<and>
   pre_jitter_score repeated_tags_profile one_tag_template = 300 \<and>
   \<not> pre_jitter_score repeated_tags_profile one_tag_template \<le> 100"
  by code_simp

text \<open>
  C1, amended: for every profile, opportunity and activity list the dynamic-catalog scorer
  returns a value in \<open>[0, 1]\<close> (given that the similarity ratio is never negative); the
  tag-weighted scorer returns an integer in \<open>[0, 100]\<close> after the jitter and the clamp,
  whatever the jitter; its value before the jitter is an integer that is never negative;
  and the tag component's contribution is between 0 and its weight of 50 whenever the
  user's tags, lower-cased and trimmed, are pairwise different.
\<close>

theorem scorer_ranges:
  "((\<forall>a b. 0 \<le> ratio a b) \<longrightarrow>
      0 \<le> calculate_match_score ratio opportunity user_profile user_activity \<and>
      calculate_match_score ratio opportunity user_profile user_activity \<le> 1) \<and>
   0 \<le> tag_weighted_match_score p opp jitter \<and>
   tag_weighted_match_score p opp jitter \<le> 100 \<and>
   0 \<le> pre_jitter_score p opp \<and>
   (distinct (user_tags p) \<longrightarrow> 0 \<le> tag_contribution p opp \<and> tag_contribution p opp \<le> 50)"
proof -
  have "0 \<le> tag_weighted_match_score p opp jitter \<and> tag_weighted_match_score p opp jitter \<le> 100"
    by (simp add: tag_weighted_match_score_def)
  then show ?thesis
    using calculate_match_score_range [of ratio opportunity user_profile user_activity]
      pre_jitter_score_nonneg [of p opp] tag_contribution_bounds [of p opp]
    by blast
qed

theorem scorer_ranges_witness:
  "0 \<le> calculate_match_score (\<lambda>a b. 0) scenario1_opportunity scenario1_profile [] \<and>
   calculate_match_score (\<lambda>a b. 0) scenario1_opportunity scenario1_profile [] \<le> 1 \<and>
   0 \<le> tag_weighted_match_score scenario2_profile scenario2_template 3 \<and>
   tag_weighted_match_score scenario2_profile scenario2_template 3 \<le> 100 \<and>
   distinct (user_tags scenario2_profile) \<and>
   tag_contribution scenario2_profile scenario2_template \<le> 50"
  using scorer_ranges [of "\<lambda>a b. 0" scenario1_opportunity scenario1_profile "[]"
      scenario2_profile scenario2_template 3]
    scenario2_tags_distinct
  by simp



text \<open>
  C6: for every profile, opportunity and activity list, appending a skill to the user's
  skills (any skill, so in particular one that is among the opportunity's requirements)
  never decreases the skills sub-score, nor its weighted contribution, nor the score that
  \<open>calculate_match_score\<close> returns.
\<close>

theorem adding_a_skill_never_lowers_the_skills_score:
  "skills_score opportunity user_profile \<le> skills_score opportunity (add_skill user_profile skill) \<and>
   skills_part opportunity user_profile \<le> skills_part opportunity (add_skill user_profile skill) \<and>
   calculate_match_score ratio opportunity user_profile user_activity
     \<le> calculate_match_score ratio opportunity (add_skill user_profile skill) user_activity"
  using skills_score_add_skill [of opportunity user_profile skill]
    skills_part_add_skill [of opportunity user_profile skill]
    calculate_match_score_add_skill [of ratio opportunity user_profile user_activity skill]
  by blast

theorem adding_a_skill_never_lowers_the_skills_score_witness:
  "skills_score scenario1_opportunity scenario1_profile = 1 / 2 \<and>
   skills_score scenario1_opportunity (add_skill scenario1_profile ''SQL'') = 1 \<and>
   skills_score scenario1_opportunity scenario1_profile
     \<le> skills_score scenario1_opportunity (add_skill scenario1_profile ''SQL'')"
proof -
  have "skills_score scenario1_opportunity scenario1_profile = 1 / 2"
    by code_simp
  moreover have "skills_score scenario1_opportunity (add_skill scenario1_profile ''SQL'') = 1"
    by code_simp
  ultimately show ?thesis
    using adding_a_skill_never_lowers_the_skills_score
      [of scenario1_opportunity scenario1_profile "''SQL''" "\<lambda>a b. 0" "[]"]
    by blast
qed

section \<open>Ranking the static catalog: threshold, sort and truncation\<close>
















section \<open>The store: profiles, listing, status updates and communities\<close>

lemma update_user_profile_result:
  "update_user_profile db username skills interests bio tags metadata now =
     (if db_online db
      then (True, db\<lparr>db_user_profiles := (db_user_profiles db)(username := Some
              \<lparr>p_username = username,
               p_skills = (case skills of None \<Rightarrow> [] | Some ss \<Rightarrow> ss),
               p_interests = (case interests of None \<Rightarrow> [] | Some is \<Rightarrow> is),
               p_tags = (case tags of None \<Rightarrow> [] | Some ts \<Rightarrow> ts),
               p_bio = (case bio of None \<Rightarrow> [] | Some b \<Rightarrow> b),
               p_metadata = (case metadata of None \<Rightarrow> [] | Some md \<Rightarrow> md),
               p_updated_at = now\<rparr>)\<rparr>)
      else (False, db))"
  by (simp add: update_user_profile_def ref_set_def Let_def)

text \<open>
  C4, as stated, fails: \<open>update_user_profile\<close> stores the tags it is given. The tag
  \<open>" AI "\<close> is stored as \<open>" AI "\<close>, not as \<open>"ai"\<close>.
\<close>

theorem tags_are_stored_as_given:
  "fst (update_user_profile empty_store ''ann'' None None None (Some ['' AI '']) None
          ''2024-05-01T10:00:00'') = True \<and>
   map_option p_tags (db_user_profiles (snd (update_user_profile empty_store ''ann'' None None None
          (Some ['' AI '']) None ''2024-05-01T10:00:00'')) ''ann'') = Some ['' AI ''] \<and>
   map_option p_tags (db_user_profiles (snd (update_user_profile empty_store ''ann'' None None None
          (Some ['' AI '']) None ''2024-05-01T10:00:00'')) ''ann'')
     \<noteq> Some (map (\<lambda>t. strip (lower t)) ['' AI ''])"
proof -
  have "map (\<lambda>t. strip (lower t)) ['' AI ''] = [''ai'']"
    by code_simp
  then show ?thesis
    by (simp add: update_user_profile_result empty_store_def)
qed

text \<open>
  C4, amended: for every call of \<open>update_user_profile\<close> whose write succeeds (the call
  returns \<open>True\<close>, which it does whenever the store answers), the tags stored in the user's
  profile are the input tags as given, or the empty list when no tags are given.
\<close>

theorem stored_tags_are_the_input_tags:
  "(update_user_profile db username skills interests bio tags metadata now = (True, db') \<longrightarrow>
      map_option p_tags (db_user_profiles db' username) =
        Some (case tags of None \<Rightarrow> [] | Some ts \<Rightarrow> ts)) \<and>
   (db_online db \<longrightarrow>
      fst (update_user_profile db username skills interests bio tags metadata now) = True)"
  by (auto simp: update_user_profile_result split: if_splits)

theorem stored_tags_are_the_input_tags_witness:
  "db_online empty_store \<and>
   update_user_profile empty_store ''ann'' None None None (Some ['' AI '', ''ml'']) None
       ''2024-05-01T10:00:00'' =
     (True, snd (update_user_profile empty_store ''ann'' None None None (Some ['' AI '', ''ml''])
                   None ''2024-05-01T10:00:00'')) \<and>
   map_option p_tags (db_user_profiles (snd (update_user_profile empty_store ''ann'' None None None
          (Some ['' AI '', ''ml'']) None ''2024-05-01T10:00:00'')) ''ann'') = Some ['' AI '', ''ml'']"
proof -
  have on: "db_online empty_store"
    by (simp add: empty_store_def)
  have "fst (update_user_profile empty_store ''ann'' None None None (Some ['' AI '', ''ml'']) None
       ''2024-05-01T10:00:00'') = True"
    using stored_tags_are_the_input_tags [of empty_store "''ann''" None None None
        "Some ['' AI '', ''ml'']" None "''2024-05-01T10:00:00''"] on
    by blast
  then have r: "update_user_profile empty_store ''ann'' None None None (Some ['' AI '', ''ml'']) None
       ''2024-05-01T10:00:00'' =
     (True, snd (update_user_profile empty_store ''ann'' None None None (Some ['' AI '', ''ml''])
                   None ''2024-05-01T10:00:00''))"
    by (simp add: prod_eq_iff)
  show ?thesis
    using stored_tags_are_the_input_tags [of empty_store "''ann''" None None None
        "Some ['' AI '', ''ml'']" None "''2024-05-01T10:00:00''"
        "snd (update_user_profile empty_store ''ann'' None None None (Some ['' AI '', ''ml''])
                   None ''2024-05-01T10:00:00'')"] on r
    by simp
qed

lemma update_opportunity_status_unfold:
  "update_opportunity_status db community opportunity_id status =
     (if db_online db then
        (case find (has_id opportunity_id) (db_opportunities db community) of
           None \<Rightarrow> (False, db)
         | Some (key, opp) \<Rightarrow>
             (True, db\<lparr>db_opportunities := (db_opportunities db)
                        (community := map (set_status key status) (db_opportunities db community))\<rparr>))
      else (False, db))"
proof -
  have "(\<lambda>(key, opp). o_id opp = Some opportunity_id) = has_id opportunity_id"
    by (simp add: fun_eq_iff has_id_def)
  then show ?thesis
    by (simp add: update_opportunity_status_def ref_get_def child_update_def
        split: option.splits prod.splits)
qed

lemma map_set_status_is_update:
  assumes "distinct (map fst coll)" and "i < length coll" and "fst (coll ! i) = key"
  shows "map (set_status key status) coll =
           coll[i := (key, (snd (coll ! i))\<lparr>o_status := Some status\<rparr>)]"
proof (rule nth_equalityI)
  show "length (map (set_status key status) coll) =
          length (coll[i := (key, (snd (coll ! i))\<lparr>o_status := Some status\<rparr>)])"
    by simp
next
  fix j
  assume "j < length (map (set_status key status) coll)"
  then have j: "j < length coll"
    by simp
  show "map (set_status key status) coll ! j =
          coll[i := (key, (snd (coll ! i))\<lparr>o_status := Some status\<rparr>)] ! j"
  proof (cases "j = i")
    case True
    then show ?thesis
      using assms(2,3) by (cases "coll ! i") (simp add: set_status_def)
  next
    case False
    have "map fst coll ! j \<noteq> map fst coll ! i"
      using assms(1,2) j False by (simp add: nth_eq_iff_index_eq del: nth_map)
    then have "fst (coll ! j) \<noteq> key"
      using assms(2,3) j by simp
    then show ?thesis
      using j False by (cases "coll ! j") (simp add: set_status_def)
  qed
qed

lemma find_has_id:
  assumes "find (has_id opportunity_id) coll = Some (key, opp)"
  shows "\<exists>i < length coll. coll ! i = (key, opp) \<and> o_id opp = Some opportunity_id"
proof -
  from assms obtain i where
    i: "i < length coll" "has_id opportunity_id (coll ! i)" "(key, opp) = coll ! i"
    unfolding find_Some_iff by blast
  from i(3) have at_i: "coll ! i = (key, opp)"
    by simp
  with i(2) have "o_id opp = Some opportunity_id"
    by (simp add: has_id_def)
  with at_i i(1) show ?thesis
    by blast
qed

lemma same_but_status_update: "same_but_status (opp\<lparr>o_status := s\<rparr>) opp"
  by (simp add: same_but_status_def)

lemma status_update_frame:
  assumes "update_opportunity_status db community opportunity_id status = (True, db')"
    and "distinct (map fst (db_opportunities db community))"
  shows "(\<exists>i < length (db_opportunities db community).
           o_id (snd (db_opportunities db community ! i)) = Some opportunity_id \<and>
           db_opportunities db' community =
             (db_opportunities db community)
               [i := (fst (db_opportunities db community ! i),
                      (snd (db_opportunities db community ! i))\<lparr>o_status := Some status\<rparr>)] \<and>
           same_but_status (snd (db_opportunities db' community ! i))
             (snd (db_opportunities db community ! i))) \<and>
         (\<forall>c. c \<noteq> community \<longrightarrow> db_opportunities db' c = db_opportunities db c) \<and>
         db_user_profiles db' = db_user_profiles db \<and>
         db_user_activity db' = db_user_activity db \<and>
         db_online db' = db_online db"
proof -
  let ?coll = "db_opportunities db community"
  from assms(1) obtain key opp where
    found: "find (has_id opportunity_id) ?coll = Some (key, opp)" and
    db': "db' = db\<lparr>db_opportunities := (db_opportunities db)
                     (community := map (set_status key status) ?coll)\<rparr>"
    by (auto simp: update_opportunity_status_unfold split: if_splits option.splits)
  from find_has_id [OF found] obtain i where
    i: "i < length ?coll" "?coll ! i = (key, opp)" "o_id opp = Some opportunity_id"
    by blast
  have "map (set_status key status) ?coll = ?coll[i := (key, (snd (?coll ! i))\<lparr>o_status := Some status\<rparr>)]"
    using assms(2) i(1) by (rule map_set_status_is_update) (simp add: i(2))
  then have upd: "db_opportunities db' community =
      ?coll[i := (fst (?coll ! i), (snd (?coll ! i))\<lparr>o_status := Some status\<rparr>)]"
    by (simp add: db' i(2))
  have "same_but_status (snd (db_opportunities db' community ! i)) (snd (?coll ! i))"
    using i(1) by (simp add: upd same_but_status_update)
  with upd i have "\<exists>i < length ?coll.
           o_id (snd (?coll ! i)) = Some opportunity_id \<and>
           db_opportunities db' community =
             ?coll[i := (fst (?coll ! i), (snd (?coll ! i))\<lparr>o_status := Some status\<rparr>)] \<and>
           same_but_status (snd (db_opportunities db' community ! i)) (snd (?coll ! i))"
    by auto
  then show ?thesis
    by (simp add: db')
qed

lemma status_update_not_found:
  assumes "\<forall>entry \<in> set (db_opportunities db community). o_id (snd entry) \<noteq> Some opportunity_id"
  shows "update_opportunity_status db community opportunity_id status = (False, db)"
proof -
  have "find (has_id opportunity_id) (db_opportunities db community) = None"
    using assms unfolding find_None_iff has_id_def by blast
  then show ?thesis
    by (simp add: update_opportunity_status_unfold)
qed

lemma status_update_found:
  assumes "db_online db"
    and "\<exists>entry \<in> set (db_opportunities db community). o_id (snd entry) = Some opportunity_id"
  shows "fst (update_opportunity_status db community opportunity_id status) = True"
proof -
  have "find (has_id opportunity_id) (db_opportunities db community) \<noteq> None"
    using assms(2) unfolding find_None_iff has_id_def by blast
  then show ?thesis
    using assms(1) by (auto simp: update_opportunity_status_unfold split: option.splits)
qed

lemma status_update_same_status:
  assumes "db_online db"
    and "distinct (map fst (db_opportunities db community))"
    and "find (has_id opportunity_id) (db_opportunities db community) = Some (key, opp)"
    and "o_status opp = Some status"
  shows "update_opportunity_status db community opportunity_id status = (True, db)"
proof -
  let ?coll = "db_opportunities db community"
  from find_has_id [OF assms(3)] obtain i where
    i: "i < length ?coll" "?coll ! i = (key, opp)"
    by blast
  have "opp\<lparr>o_status := Some status\<rparr> = opp"
    using assms(4) by simp
  moreover have "map (set_status key status) ?coll = ?coll[i := (key, (snd (?coll ! i))\<lparr>o_status := Some status\<rparr>)]"
    using assms(2) i(1) by (rule map_set_status_is_update) (simp add: i(2))
  ultimately have "map (set_status key status) ?coll = ?coll[i := ?coll ! i]"
    by (simp add: i(2))
  then have "map (set_status key status) ?coll = ?coll"
    by simp
  then show ?thesis
    using assms(1,3) by (simp add: update_opportunity_status_unfold)
qed

lemma add_opportunity_result:
  "add_opportunity db community title description category tags requirements deadline posted_by
     metadata uuid4 now push_key =
   (if db_online db
    then (Some uuid4,
          db\<lparr>db_opportunities := (db_opportunities db)
               (community := db_opportunities db community @
                  [(push_key,
                    \<lparr>o_id = Some uuid4, o_title = title, o_description = description,
                     o_category = category,
                     o_tags = (case tags of None \<Rightarrow> [] | Some ts \<Rightarrow> ts),
                     o_requirements = (case requirements of None \<Rightarrow> [] | Some rs \<Rightarrow> rs),
                     o_deadline = deadline, o_posted_by = posted_by,
                     o_metadata = (case metadata of None \<Rightarrow> [] | Some md \<Rightarrow> md),
                     o_created_at = now, o_status = Some ''active''\<rparr>)])\<rparr>)
    else (None, db))"
  by (simp add: add_opportunity_def ref_push_def Let_def)






lemma set_sort_reverse: "set (sort_reverse f xs) = set xs"
  by (simp add: sort_reverse_def)



lemma get_opportunities_status:
  assumes "status \<noteq> ''all''" and "opp \<in> set (get_opportunities db community status limit)"
  shows "o_status opp = Some status"
  using assms
  by (auto simp: get_opportunities_def set_sort_reverse Let_def split: sum.splits if_splits)

lemma sort_reverse_descending: "sorted_wrt (\<lambda>a b. f b \<le> f a) (sort_reverse f xs)"
proof -
  have "sorted (map f (sort_key f (rev xs)))"
    by (rule sorted_sort_key)
  then have "sorted_wrt (\<lambda>a b. f a \<le> f b) (sort_key f (rev xs))"
    by (simp add: sorted_map)
  then show ?thesis
    by (simp add: sort_reverse_def sorted_wrt_rev)
qed

lemma get_opportunities_descending:
  "sorted_wrt (\<lambda>a b. o_created_at b \<le> o_created_at a) (get_opportunities db community status limit)"
  by (simp add: get_opportunities_def sort_reverse_descending Let_def split: sum.splits)

lemma get_opportunities_online:
  assumes "db_online db" and "0 \<le> limit" and "length (db_opportunities db community) \<le> nat limit"
  shows "get_opportunities db community status limit =
     sort_reverse o_created_at (map snd (sort_key fst
       (filter (\<lambda>entry. status = ''all'' \<or> o_status (snd entry) = Some status)
          (db_opportunities db community))))"
proof -
  let ?coll = "db_opportunities db community"
  have q: "query_opportunities db community limit = Inr (sort_key fst ?coll)"
    using assms by (simp add: query_opportunities_def limit_to_last_def last_n_def)
  have e: "sort_key fst ?coll = [] \<longleftrightarrow> ?coll = []"
    by (metis length_sort length_0_conv)
  show ?thesis
  proof (cases "status = ''all''")
    case True
    then show ?thesis
      by (cases "?coll = []") (simp_all add: get_opportunities_def q e sort_reverse_def)
  next
    case False
    have "filter (\<lambda>opp. o_status opp = Some status) (map snd (sort_key fst ?coll)) =
          map snd (sort_key fst (filter (\<lambda>entry. o_status (snd entry) = Some status) ?coll))"
      by (simp add: filter_map comp_def filter_sort)
    then show ?thesis
      using False
      by (cases "?coll = []") (simp_all add: get_opportunities_def q e sort_reverse_def)
  qed
qed

lemma submit_result:
  "submit db community sub uuid4 now push_key =
     (if db_online db
      then (Some uuid4,
            db\<lparr>db_opportunities := (db_opportunities db)
                 (community := db_opportunities db community @ [(push_key, submitted sub uuid4 now)])\<rparr>)
      else (None, db))"
  by (simp add: submit_def add_opportunity_result submitted_def)

lemma three_created:
  assumes "db_online db" and "db_opportunities db community = []"
  shows "db_online (snd (submit (snd (submit (snd (submit db community sub1 uuid1 now1 key1))
             community sub2 uuid2 now2 key2)) community sub3 uuid3 now3 key3))"
    and "db_opportunities (snd (submit (snd (submit (snd (submit db community sub1 uuid1 now1 key1))
             community sub2 uuid2 now2 key2)) community sub3 uuid3 now3 key3)) community =
         [(key1, submitted sub1 uuid1 now1), (key2, submitted sub2 uuid2 now2),
          (key3, submitted sub3 uuid3 now3)]"
  using assms by (simp_all add: submit_result)

lemma o_id_submitted: "o_id (submitted sub uuid4 now) = Some uuid4"
  and o_status_submitted: "o_status (submitted sub uuid4 now) = Some ''active''"
  by (simp_all add: submitted_def)

lemma closed_listing:
  assumes "db_online db3"
    and "db_opportunities db3 community = [(key1, opp1), (key2, opp2), (key3, opp3)]"
    and "distinct [key1, key2, key3]"
    and "o_status opp1 = Some ''active''" "o_status opp2 = Some ''active''"
      "o_status opp3 = Some ''active''"
    and "find (has_id closed_id) [(key1, opp1), (key2, opp2), (key3, opp3)] = Some (key, opp)"
  shows "fst (update_opportunity_status db3 community closed_id ''closed'') = True"
    and "get_opportunities (snd (update_opportunity_status db3 community closed_id ''closed''))
           community ''closed'' 50 = [opp\<lparr>o_status := Some ''closed''\<rparr>]"
proof -
  let ?db4 = "snd (update_opportunity_status db3 community closed_id ''closed'')"
  have r: "update_opportunity_status db3 community closed_id ''closed'' =
      (True, db3\<lparr>db_opportunities := (db_opportunities db3)
         (community := map (set_status key ''closed'') [(key1, opp1), (key2, opp2), (key3, opp3)])\<rparr>)"
    using assms(1,7) by (simp add: update_opportunity_status_unfold assms(2))
  then show "fst (update_opportunity_status db3 community closed_id ''closed'') = True"
    by simp
  have member: "(key, opp) \<in> {(key1, opp1), (key2, opp2), (key3, opp3)}"
    using assms(7) by (auto simp: find_Some_iff nth_Cons' split: if_splits)
  have online: "db_online ?db4" and
    coll: "db_opportunities ?db4 community =
             map (set_status key ''closed'') [(key1, opp1), (key2, opp2), (key3, opp3)]"
    using assms(1) by (simp_all add: r)
  have "filter (\<lambda>entry. ''closed'' = ''all'' \<or> o_status (snd entry) = Some ''closed'')
          (db_opportunities ?db4 community) = [(key, opp\<lparr>o_status := Some ''closed''\<rparr>)]"
    using member assms(3-6) unfolding coll by (auto simp: set_status_def)
  moreover have "get_opportunities ?db4 community ''closed'' 50 =
     sort_reverse o_created_at (map snd (sort_key fst
       (filter (\<lambda>entry. ''closed'' = ''all'' \<or> o_status (snd entry) = Some ''closed'')
          (db_opportunities ?db4 community))))"
    using online by (rule get_opportunities_online) (simp_all add: coll)
  ultimately show "get_opportunities ?db4 community ''closed'' 50 = [opp\<lparr>o_status := Some ''closed''\<rparr>]"
    by (simp add: sort_reverse_def)
qed

lemma scenario3:
  assumes "db_online db" and "db_opportunities db community = []"
    and "distinct [key1, key2, key3]"
    and "closed_id \<in> {uuid1, uuid2, uuid3}"
  shows "fst (create_three_close_one db community sub1 uuid1 now1 key1 sub2 uuid2 now2 key2
                sub3 uuid3 now3 key3 closed_id) = True \<and>
         length (get_opportunities (snd (create_three_close_one db community sub1 uuid1 now1 key1
                   sub2 uuid2 now2 key2 sub3 uuid3 now3 key3 closed_id)) community ''closed'' 50) = 1 \<and>
         map o_id (get_opportunities (snd (create_three_close_one db community sub1 uuid1 now1 key1
                   sub2 uuid2 now2 key2 sub3 uuid3 now3 key3 closed_id)) community ''closed'' 50)
           = [Some closed_id] \<and>
         map o_status (get_opportunities (snd (create_three_close_one db community sub1 uuid1 now1
                   key1 sub2 uuid2 now2 key2 sub3 uuid3 now3 key3 closed_id)) community ''closed'' 50)
           = [Some ''closed'']"
proof -
  let ?db3 = "snd (submit (snd (submit (snd (submit db community sub1 uuid1 now1 key1))
             community sub2 uuid2 now2 key2)) community sub3 uuid3 now3 key3)"
  let ?coll = "[(key1, submitted sub1 uuid1 now1), (key2, submitted sub2 uuid2 now2),
          (key3, submitted sub3 uuid3 now3)]"
  have c: "create_three_close_one db community sub1 uuid1 now1 key1 sub2 uuid2 now2 key2
                sub3 uuid3 now3 key3 closed_id = update_opportunity_status ?db3 community closed_id ''closed''"
    by (simp add: create_three_close_one_def Let_def)
  have "has_id closed_id (key1, submitted sub1 uuid1 now1) \<or>
        has_id closed_id (key2, submitted sub2 uuid2 now2) \<or>
        has_id closed_id (key3, submitted sub3 uuid3 now3)"
    using assms(4) by (auto simp: has_id_def o_id_submitted)
  then have "\<exists>entry. entry \<in> set ?coll \<and> has_id closed_id entry"
    by auto
  then have "find (has_id closed_id) ?coll \<noteq> None"
    unfolding find_None_iff by blast
  then obtain key opp where f: "find (has_id closed_id) ?coll = Some (key, opp)"
    by (cases "find (has_id closed_id) ?coll") auto
  from find_has_id [OF f] have i: "o_id opp = Some closed_id"
    by blast
  note l = closed_listing [OF three_created [OF assms(1,2)] assms(3)
      o_status_submitted o_status_submitted o_status_submitted f]
  show ?thesis
    unfolding c by (simp add: l i)
qed

lemma sample_store_facts:
  "db_online sample_store"
  "db_opportunities sample_store ''dev'' = [(''k1'', sample_opportunity)]"
  "o_id sample_opportunity = Some ''id-1''"
  "o_status sample_opportunity = Some ''active''"
  by (simp_all add: sample_store_def empty_store_def sample_opportunity_def)


text \<open>
  C7: when \<open>get_opportunities\<close> is called with a status other than \<open>"all"\<close>, every
  opportunity it returns has exactly that status; in every case the returned list is
  ordered by \<open>created_at\<close>, latest first; and after three opportunities are created in a
  community that had none (the store answering, the three storage keys different) and one
  of them is closed, \<open>get_opportunities(community, status="closed")\<close> returns a list of
  length 1 that holds the closed opportunity.
\<close>

theorem listing_filters_by_status_and_orders_by_creation:
  "(status \<noteq> ''all'' \<longrightarrow>
      (\<forall>opp \<in> set (get_opportunities db community status limit). o_status opp = Some status)) \<and>
   sorted_wrt (\<lambda>a b. o_created_at b \<le> o_created_at a)
     (get_opportunities db community status limit) \<and>
   (db_online db0 \<and> db_opportunities db0 c = [] \<and> distinct [key1, key2, key3] \<and>
    closed_id \<in> {uuid1, uuid2, uuid3} \<longrightarrow>
      fst (create_three_close_one db0 c sub1 uuid1 now1 key1 sub2 uuid2 now2 key2
             sub3 uuid3 now3 key3 closed_id) = True \<and>
      length (get_opportunities (snd (create_three_close_one db0 c sub1 uuid1 now1 key1
                sub2 uuid2 now2 key2 sub3 uuid3 now3 key3 closed_id)) c ''closed'' 50) = 1 \<and>
      map o_id (get_opportunities (snd (create_three_close_one db0 c sub1 uuid1 now1 key1
                sub2 uuid2 now2 key2 sub3 uuid3 now3 key3 closed_id)) c ''closed'' 50)
        = [Some closed_id] \<and>
      map o_status (get_opportunities (snd (create_three_close_one db0 c sub1 uuid1 now1 key1
                sub2 uuid2 now2 key2 sub3 uuid3 now3 key3 closed_id)) c ''closed'' 50)
        = [Some ''closed''])"
  using get_opportunities_status [of status _ db community limit]
    get_opportunities_descending [of db community status limit]
    scenario3 [of db0 c key1 key2 key3 closed_id uuid1 uuid2 uuid3 sub1 now1 sub2 now2 sub3 now3]
  by blast

theorem listing_filters_by_status_and_orders_by_creation_witness:
  "''closed'' \<noteq> ''all'' \<and> db_online empty_store \<and> db_opportunities empty_store ''dev'' = [] \<and>
   distinct [''k1'', ''k2'', ''k3''] \<and>
   map o_id (get_opportunities (snd (create_three_close_one empty_store ''dev''
       sample_submission ''id-1'' ''2024-05-01T10:00:00'' ''k1''
       sample_submission ''id-2'' ''2024-05-02T10:00:00'' ''k2''
       sample_submission ''id-3'' ''2024-05-03T10:00:00'' ''k3'' ''id-2'')) ''dev'' ''closed'' 50)
     = [Some ''id-2''] \<and>
   map o_status (get_opportunities (snd (create_three_close_one empty_store ''dev''
       sample_submission ''id-1'' ''2024-05-01T10:00:00'' ''k1''
       sample_submission ''id-2'' ''2024-05-02T10:00:00'' ''k2''
       sample_submission ''id-3'' ''2024-05-03T10:00:00'' ''k3'' ''id-2'')) ''dev'' ''closed'' 50)
     = [Some ''closed'']"
proof -
  have h: "db_online empty_store" "db_opportunities empty_store ''dev'' = []"
    "distinct [''k1'', ''k2'', ''k3'']" "''id-2'' \<in> {''id-1'', ''id-2'', ''id-3''}"
    "''closed'' \<noteq> ''all''"
    by (simp_all add: empty_store_def)
  show ?thesis
    using listing_filters_by_status_and_orders_by_creation
      [where ?db0.0 = empty_store and c = "''dev''" and ?key1.0 = "''k1''" and ?key2.0 = "''k2''"
        and ?key3.0 = "''k3''" and closed_id = "''id-2''" and ?uuid1.0 = "''id-1''"
        and ?uuid2.0 = "''id-2''" and ?uuid3.0 = "''id-3''" and ?sub1.0 = sample_submission
        and ?sub2.0 = sample_submission and ?sub3.0 = sample_submission
        and ?now1.0 = "''2024-05-01T10:00:00''" and ?now2.0 = "''2024-05-02T10:00:00''"
        and ?now3.0 = "''2024-05-03T10:00:00''"] h
    by blast
qed

text \<open>
  C8: \<open>update_opportunity_status\<close> returns \<open>False\<close> and leaves the store unchanged when no
  record of the community has the given id; it returns \<open>True\<close> when such a record exists
  (and the store answers); and when the record it finds already has the given status, it
  returns \<open>True\<close> and the store, hence that status, is unchanged (the keys of a collection
  being pairwise different).
\<close>

theorem status_update_reports_whether_the_id_exists:
  "((\<forall>entry \<in> set (db_opportunities db community). o_id (snd entry) \<noteq> Some opportunity_id) \<longrightarrow>
      update_opportunity_status db community opportunity_id status = (False, db)) \<and>
   (db_online db \<and>
    (\<exists>entry \<in> set (db_opportunities db community). o_id (snd entry) = Some opportunity_id) \<longrightarrow>
      fst (update_opportunity_status db community opportunity_id status) = True) \<and>
   (db_online db \<and> distinct (map fst (db_opportunities db community)) \<and>
    find (has_id opportunity_id) (db_opportunities db community) = Some (key, opp) \<and>
    o_status opp = Some status \<longrightarrow>
      update_opportunity_status db community opportunity_id status = (True, db))"
  using status_update_not_found [of db community opportunity_id status]
    status_update_found [of db community opportunity_id status]
    status_update_same_status [of db community opportunity_id key opp status]
  by blast

theorem status_update_reports_whether_the_id_exists_witness:
  "update_opportunity_status sample_store ''dev'' ''id-7'' ''closed'' = (False, sample_store) \<and>
   fst (update_opportunity_status sample_store ''dev'' ''id-1'' ''closed'') = True \<and>
   update_opportunity_status sample_store ''dev'' ''id-1'' ''active'' = (True, sample_store)"
proof -
  have a: "\<forall>entry \<in> set (db_opportunities sample_store ''dev''). o_id (snd entry) \<noteq> Some ''id-7''"
    by (simp add: sample_store_facts)
  have b: "\<exists>entry \<in> set (db_opportunities sample_store ''dev''). o_id (snd entry) = Some ''id-1''"
    by (simp add: sample_store_facts)
  have c: "distinct (map fst (db_opportunities sample_store ''dev''))"
    "find (has_id ''id-1'') (db_opportunities sample_store ''dev'') = Some (''k1'', sample_opportunity)"
    by (simp_all add: sample_store_facts has_id_def)
  show ?thesis
    using status_update_reports_whether_the_id_exists
        [of sample_store "''dev''" "''id-7''" "''closed''"]
      status_update_reports_whether_the_id_exists
        [of sample_store "''dev''" "''id-1''" "''closed''"]
      status_update_reports_whether_the_id_exists
        [of sample_store "''dev''" "''id-1''" "''active''" "''k1''" sample_opportunity]
      a b c sample_store_facts(1,4)
    by blast
qed



text \<open>
  C10: when \<open>update_opportunity_status\<close> finds a record with the given id (it returns
  \<open>True\<close>), the community's collection afterwards is the collection before with that one
  record's status replaced: every other field of the record, every other record of the
  collection, the collections of the other communities, the profiles and the activity
  logs are unchanged (the keys of the collection being pairwise different).
\<close>

theorem status_update_changes_one_status_only:
  "update_opportunity_status db community opportunity_id status = (True, db') \<and>
   distinct (map fst (db_opportunities db community)) \<longrightarrow>
     (\<exists>i < length (db_opportunities db community).
        o_id (snd (db_opportunities db community ! i)) = Some opportunity_id \<and>
        db_opportunities db' community =
          (db_opportunities db community)
            [i := (fst (db_opportunities db community ! i),
                   (snd (db_opportunities db community ! i))\<lparr>o_status := Some status\<rparr>)] \<and>
        same_but_status (snd (db_opportunities db' community ! i))
          (snd (db_opportunities db community ! i))) \<and>
     (\<forall>c. c \<noteq> community \<longrightarrow> db_opportunities db' c = db_opportunities db c) \<and>
     db_user_profiles db' = db_user_profiles db \<and>
     db_user_activity db' = db_user_activity db \<and>
     db_online db' = db_online db"
  using status_update_frame [of db community opportunity_id status db'] by blast

theorem status_update_changes_one_status_only_witness:
  "update_opportunity_status sample_store ''dev'' ''id-1'' ''closed'' =
     (True, snd (update_opportunity_status sample_store ''dev'' ''id-1'' ''closed'')) \<and>
   distinct (map fst (db_opportunities sample_store ''dev'')) \<and>
   db_opportunities (snd (update_opportunity_status sample_store ''dev'' ''id-1'' ''closed'')) ''dev''
     = [(''k1'', sample_opportunity\<lparr>o_status := Some ''closed''\<rparr>)] \<and>
   db_user_profiles (snd (update_opportunity_status sample_store ''dev'' ''id-1'' ''closed''))
     = db_user_profiles sample_store"
proof -
  have r: "update_opportunity_status sample_store ''dev'' ''id-1'' ''closed'' =
     (True, snd (update_opportunity_status sample_store ''dev'' ''id-1'' ''closed''))"
    by (simp add: update_opportunity_status_unfold sample_store_facts has_id_def)
  have d: "distinct (map fst (db_opportunities sample_store ''dev''))"
    by (simp add: sample_store_facts)
  show ?thesis
    using status_update_changes_one_status_only
      [of sample_store "''dev''" "''id-1''" "''closed''"
        "snd (update_opportunity_status sample_store ''dev'' ''id-1'' ''closed'')"] r d
    by (auto simp: sample_store_facts)
qed

end
